theory Spec2Isabelle
  imports Main "HOL-Library.Multiset"
begin

section \<open>Data model\<close>

text \<open>
  The task manager keeps two SQL tables, \<open>tasks\<close> and \<open>sync_queue\<close>. A table is a list
  of rows in insertion order. A \<open>Date\<close> is the number of milliseconds it holds
  (\<open>getTime()\<close>); the ISO strings stored in the tables order the same way.
  Field names follow the TypeScript interfaces; \<open>Task.id\<close> is \<open>t_id\<close>, and the fields of
  \<open>SyncQueueItem\<close> that share a name with a field of \<open>Task\<close> carry the prefix \<open>q_\<close>.
\<close>

datatype sync_status = Pending | Synced | Error

datatype operation = Create | Update | Delete

record task =
  t_id :: string
  title :: string
  description :: "string option"
  completed :: bool
  created_at :: int
  updated_at :: int
  is_deleted :: bool
  sync_status :: sync_status
  server_id :: "string option"
  last_synced_at :: "int option"

text \<open>A row of \<open>tasks\<close> has one more column than the \<open>Task\<close> object, \<open>error_message\<close>.\<close>

record task_row = task +
  error_message :: "string option"

record queue_item =
  q_id :: string
  task_id :: string
  operation :: operation
  data :: task
  q_created_at :: int
  retry_count :: int
  q_error_message :: "string option"

record database =
  tasks :: "task_row list"
  sync_queue :: "queue_item list"

section \<open>SyncService.resolveConflict\<close>

text \<open>
  \<^verbatim>\<open>const winningTask = localTimestamp > serverTimestamp ? localTask : serverTask;\<close>
  Both arguments are \<open>Task\<close>s as the signature declares them, so \<open>updated_at\<close> is a
  \<open>Date\<close>. The function reads nothing but its two arguments; the line it writes to the
  console is not part of the model.
\<close>

definition resolveConflict :: "task \<Rightarrow> task \<Rightarrow> task" where
  "resolveConflict localTask serverTask =
     (let localTimestamp = updated_at localTask;
          serverTimestamp = updated_at serverTask
      in if localTimestamp > serverTimestamp then localTask else serverTask)"

section \<open>The storage layer\<close>

text \<open>
  The \<open>Database\<close> class (\<open>src/db/database.ts\<close>) wraps SQLite; the statements the
  services send are modelled by what they do to the two tables. Storage is assumed not to
  fail. \<open>db.get\<close> returns the first matching row.
\<close>

text \<open>
  Modelled from the spec: the schema of \<open>sync_queue\<close> is declared in
  \<open>src/db/database.ts\<close>, which is not among the sources. The \<open>INSERT\<close> statements of
  \<open>TaskService\<close> name no \<open>retry_count\<close> and no \<open>error_message\<close>, so the columns take
  their defaults; the data model says the retry counter starts at 0, and the last error
  message is optional.
\<close>

definition default_retry_count :: int where
  "default_retry_count = 0"

definition default_error_message :: "string option" where
  "default_error_message = None"

section \<open>TaskService\<close>

text \<open>\<^verbatim>\<open>SELECT * FROM tasks WHERE id = ? AND is_deleted = 0\<close>, the row turned into a \<open>Task\<close>.\<close>

definition getTask :: "database \<Rightarrow> string \<Rightarrow> task option" where
  "getTask db ident =
     (case find (\<lambda>row. t_id row = ident \<and> \<not> is_deleted row) (tasks db) of
        None \<Rightarrow> None
      | Some row \<Rightarrow> Some (task.truncate row))"

text \<open>
  The values \<open>TaskService\<close> takes from outside: \<open>uuidv4()\<close> and \<open>new Date()\<close>, in the
  order the calls are made.
\<close>

record create_env =
  task_uuid :: string
  created_now :: int
  updated_now :: int
  item_uuid :: string
  enqueued_now :: int

record mutate_env =
  m_updated_now :: int
  m_item_uuid :: string
  m_enqueued_now :: int

text \<open>
  \<open>createTask\<close> reads three fields of its \<open>Partial<Task>\<close> argument: \<open>title\<close> (asserted
  present by \<open>taskData.title!\<close>), \<open>description\<close> and \<open>completed\<close>.
\<close>

record create_data =
  c_title :: string
  c_description :: "string option"
  c_completed :: "bool option"

definition insert_queue_item :: "string \<Rightarrow> string \<Rightarrow> operation \<Rightarrow> task \<Rightarrow> int \<Rightarrow> queue_item" where
  "insert_queue_item ident tid opn payload now =
     \<lparr>q_id = ident, task_id = tid, operation = opn, data = payload, q_created_at = now,
      retry_count = default_retry_count, q_error_message = default_error_message\<rparr>"

definition createTask :: "create_env \<Rightarrow> create_data \<Rightarrow> database \<Rightarrow> database \<times> task" where
  "createTask e taskData db =
     (let new_task = \<lparr>t_id = task_uuid e,
                      title = c_title taskData,
                      description = c_description taskData,
                      completed = (case c_completed taskData of None \<Rightarrow> False | Some b \<Rightarrow> b),
                      created_at = created_now e,
                      updated_at = updated_now e,
                      is_deleted = False,
                      sync_status = Pending,
                      server_id = None,
                      last_synced_at = None\<rparr>
      in (\<lparr>tasks = tasks db @ [task.extend new_task \<lparr>error_message = None\<rparr>],
           sync_queue = sync_queue db @
             [insert_queue_item (item_uuid e) (t_id new_task) Create new_task (enqueued_now e)]\<rparr>,
          new_task))"

text \<open>
  \<open>updates: Partial<Task>\<close>: every field of \<open>Task\<close> may be present or absent.
  \<open>{...existingTask, ...updates}\<close> takes a field from \<open>updates\<close> where it is present.
\<close>

record partial_task =
  p_id :: "string option"
  p_title :: "string option"
  p_description :: "string option"
  p_completed :: "bool option"
  p_created_at :: "int option"
  p_updated_at :: "int option"
  p_is_deleted :: "bool option"
  p_sync_status :: "sync_status option"
  p_server_id :: "string option"
  p_last_synced_at :: "int option"

definition spread :: "task \<Rightarrow> partial_task \<Rightarrow> task" where
  "spread t u =
     \<lparr>t_id = (case p_id u of None \<Rightarrow> t_id t | Some v \<Rightarrow> v),
      title = (case p_title u of None \<Rightarrow> title t | Some v \<Rightarrow> v),
      description = (case p_description u of None \<Rightarrow> description t | Some v \<Rightarrow> Some v),
      completed = (case p_completed u of None \<Rightarrow> completed t | Some v \<Rightarrow> v),
      created_at = (case p_created_at u of None \<Rightarrow> created_at t | Some v \<Rightarrow> v),
      updated_at = (case p_updated_at u of None \<Rightarrow> updated_at t | Some v \<Rightarrow> v),
      is_deleted = (case p_is_deleted u of None \<Rightarrow> is_deleted t | Some v \<Rightarrow> v),
      sync_status = (case p_sync_status u of None \<Rightarrow> sync_status t | Some v \<Rightarrow> v),
      server_id = (case p_server_id u of None \<Rightarrow> server_id t | Some v \<Rightarrow> Some v),
      last_synced_at = (case p_last_synced_at u of None \<Rightarrow> last_synced_at t | Some v \<Rightarrow> Some v)\<rparr>"

definition updateTask :: "mutate_env \<Rightarrow> string \<Rightarrow> partial_task \<Rightarrow> database \<Rightarrow> database \<times> task option" where
  "updateTask e ident updates db =
     (case getTask db ident of
        None \<Rightarrow> (db, None)
      | Some existingTask \<Rightarrow>
          (let updatedTask = (spread existingTask updates)
                               \<lparr>updated_at := m_updated_now e, sync_status := Pending\<rparr>
           in (\<lparr>tasks = map (\<lambda>row. if t_id row = ident
                                    then row\<lparr>title := title updatedTask,
                                             description := description updatedTask,
                                             completed := completed updatedTask,
                                             updated_at := updated_at updatedTask,
                                             sync_status := sync_status updatedTask\<rparr>
                                    else row) (tasks db),
                sync_queue = sync_queue db @
                  [insert_queue_item (m_item_uuid e) ident Update updatedTask (m_enqueued_now e)]\<rparr>,
               Some updatedTask)))"

definition deleteTask :: "mutate_env \<Rightarrow> string \<Rightarrow> database \<Rightarrow> database \<times> bool" where
  "deleteTask e ident db =
     (case getTask db ident of
        None \<Rightarrow> (db, False)
      | Some t \<Rightarrow>
          (\<lparr>tasks = map (\<lambda>row. if t_id row = ident
                                then row\<lparr>is_deleted := True,
                                         updated_at := m_updated_now e,
                                         sync_status := Pending\<rparr>
                                else row) (tasks db),
            sync_queue = sync_queue db @
              [insert_queue_item (m_item_uuid e) ident Delete (t\<lparr>is_deleted := True\<rparr>)
                 (m_enqueued_now e)]\<rparr>,
           True))"

section \<open>SyncService: the outside world\<close>

text \<open>
  What an awaited call does: it returns a value or throws an error with a message.
  Requests to the server may throw; calls to the storage layer and \<open>JSON.parse\<close> of a
  stored payload are taken not to, and a response that arrives has the declared type
  \<open>BatchSyncResponse\<close>.
\<close>

datatype 'a attempt = Returns 'a | Throws string

text \<open>The verdicts \<open>'success'\<close>, \<open>'conflict'\<close> and \<open>'error'\<close>.\<close>

datatype verdict = Success | Conflict | Failure

text \<open>
  A response is what \<open>axios\<close> parses from JSON, and JSON has no dates: where a \<open>Task\<close>
  holds a \<open>Date\<close>, the object that arrives holds no value, \<open>null\<close>, a string (the ISO
  text a server writes for a date) or some other JSON value.
\<close>

datatype wire_date = NoDate | NullDate | DateText string | OtherValue

text \<open>A task as it arrives in a response: every field may be missing.\<close>

record wire_task =
  w_id :: "string option"
  w_title :: "string option"
  w_description :: "string option"
  w_completed :: "bool option"
  w_created_at :: wire_date
  w_updated_at :: wire_date
  w_is_deleted :: "bool option"
  w_sync_status :: "sync_status option"
  w_server_id :: "string option"
  w_last_synced_at :: wire_date

text \<open>
  One entry of \<open>processed_items\<close> in a \<open>BatchSyncResponse\<close>. \<open>resolved_data\<close> is the
  object that arrived, if any; \<open>v_server_id\<close> is the entry's own \<open>server_id\<close>, which the
  client never reads.
\<close>

record processed_item =
  client_id :: string
  v_server_id :: string
  status :: verdict
  resolved_data :: "wire_task option"
  error :: "string option"

record batch_request =
  items :: "queue_item list"
  client_timestamp :: int

text \<open>
  \<open>process.env.SYNC_BATCH_SIZE\<close>, by what \<open>parseInt\<close> makes of it: unset (or empty), a
  string that parses to an integer, or a string that parses to \<open>NaN\<close>.
\<close>

datatype env_setting = Unset | ParsesTo int | NotANumber

text \<open>
  The environment of one run of \<open>sync\<close>: the outcome of the health request, the outcome of
  the \<open>n\<close>-th batch request (counted from 0) given what was sent, the value of the
  \<open>n\<close>-th \<open>new Date()\<close> of the run, and the batch-size setting.
\<close>

record environment =
  health :: "unit attempt"
  post :: "nat \<Rightarrow> batch_request \<Rightarrow> processed_item list attempt"
  clock :: "nat \<Rightarrow> int"
  SYNC_BATCH_SIZE :: env_setting

record sync_error =
  e_task_id :: string
  e_operation :: string
  e_error :: string
  e_timestamp :: int

record SyncResult =
  success :: bool
  synced_items :: nat
  failed_items :: nat
  errors :: "sync_error list"

text \<open>
  The state of a run between two statements: the two tables, the local variables
  \<open>syncedItems\<close>, \<open>failedItems\<close> and \<open>errors\<close> of \<open>sync\<close>, the requests sent so far, and
  how many times the clock has been read.
\<close>

record run =
  db :: database
  syncedItems :: nat
  failedItems :: nat
  errs :: "sync_error list"
  posts :: "batch_request list"
  ticks :: nat

definition operation_name :: "operation \<Rightarrow> string" where
  "operation_name opn = (case opn of Create \<Rightarrow> ''create'' | Update \<Rightarrow> ''update'' | Delete \<Rightarrow> ''delete'')"

section \<open>SyncService.checkConnectivity\<close>

definition checkConnectivity :: "environment \<Rightarrow> bool" where
  "checkConnectivity env = (case health env of Returns _ \<Rightarrow> True | Throws _ \<Rightarrow> False)"

section \<open>SyncService.updateSyncStatus and handleSyncError\<close>

text \<open>
  \<open>serverData?.server_id\<close> is truthy when the data is there and carries a non-empty
  server identifier.
\<close>

definition truthy_server_id :: "wire_task option \<Rightarrow> string option" where
  "truthy_server_id serverData =
     (case serverData of
        None \<Rightarrow> None
      | Some d \<Rightarrow> (case w_server_id d of None \<Rightarrow> None | Some sid \<Rightarrow> if sid = [] then None else Some sid))"

definition updateSyncStatus :: "string \<Rightarrow> sync_status \<Rightarrow> wire_task option \<Rightarrow> int \<Rightarrow> database \<Rightarrow> database" where
  "updateSyncStatus taskId st serverData now d =
     (let set_fields = (\<lambda>row. case truthy_server_id serverData of
                           None \<Rightarrow> row\<lparr>sync_status := st, last_synced_at := Some now\<rparr>
                         | Some sid \<Rightarrow> row\<lparr>sync_status := st, last_synced_at := Some now,
                                           server_id := Some sid\<rparr>);
          d1 = d\<lparr>tasks := map (\<lambda>row. if t_id row = taskId then set_fields row else row) (tasks d)\<rparr>
      in if st = Synced
         then d1\<lparr>sync_queue := filter (\<lambda>q. task_id q \<noteq> taskId) (sync_queue d1)\<rparr>
         else d1)"

text \<open>\<open>error.message || 'Unknown error'\<close>: the empty message is falsy.\<close>

definition handleSyncError :: "queue_item \<Rightarrow> string \<Rightarrow> database \<Rightarrow> database" where
  "handleSyncError item message d =
     (let retryCount = retry_count item + 1;
          errorMessage = (if message = [] then ''Unknown error'' else message);
          d1 = d\<lparr>sync_queue := map (\<lambda>q. if q_id q = q_id item
                                          then q\<lparr>retry_count := retryCount,
                                                 q_error_message := Some errorMessage\<rparr>
                                          else q) (sync_queue d)\<rparr>
      in if retryCount \<ge> 3
         then (let d2 = d1\<lparr>tasks := map (\<lambda>row. if t_id row = task_id item
                                               then row\<lparr>sync_status := Error,
                                                        error_message := Some (''Max retries exceeded: '' @ errorMessage)\<rparr>
                                               else row) (tasks d1)\<rparr>
               in d2\<lparr>sync_queue := filter (\<lambda>q. q_id q \<noteq> q_id item) (sync_queue d2)\<rparr>)
         else d1)"

section \<open>SyncService.sync: batching\<close>

definition BATCH_SIZE :: "environment \<Rightarrow> int option" where
  \<comment> \<open>\<open>parseInt(process.env.SYNC_BATCH_SIZE || '50')\<close>; \<open>None\<close> is \<open>NaN\<close>.\<close>
  "BATCH_SIZE env =
     (case SYNC_BATCH_SIZE env of Unset \<Rightarrow> Some 50 | ParsesTo n \<Rightarrow> Some n | NotANumber \<Rightarrow> None)"

definition slice :: "'a list \<Rightarrow> int \<Rightarrow> int \<Rightarrow> 'a list" where
  \<comment> \<open>\<open>Array.prototype.slice\<close>: a negative index counts from the end, both are clamped.\<close>
  "slice xs start end =
     (let n = int (length xs);
          k = (if start < 0 then max (n + start) 0 else min start n);
          final = (if end < 0 then max (n + end) 0 else min end n)
      in take (nat (final - k)) (drop (nat k) xs))"

text \<open>
  \<^verbatim>\<open>for (let i = 0; i < syncQueueItems.length; i += BATCH_SIZE)
    batches.push(syncQueueItems.slice(i, i + BATCH_SIZE));\<close>
  The loop need not end (a batch size of 0 never advances \<open>i\<close>), so it is a partial
  function: \<open>None\<close> is a loop that runs forever.
\<close>

partial_function (option) batches_loop :: "int \<Rightarrow> 'a list \<Rightarrow> int \<Rightarrow> 'a list list \<Rightarrow> 'a list list option" where
  "batches_loop B xs i batches =
     (if i < int (length xs)
      then batches_loop B xs (i + B) (batches @ [slice xs i (i + B)])
      else Some batches)"

text \<open>
  With \<open>BATCH_SIZE = NaN\<close> the first test \<open>0 < length\<close> decides: the body runs once,
  \<open>slice(0, NaN)\<close> is empty, \<open>i\<close> becomes \<open>NaN\<close> and the loop ends.
\<close>

definition make_batches :: "int option \<Rightarrow> 'a list \<Rightarrow> 'a list list option" where
  "make_batches B xs =
     (case B of
        None \<Rightarrow> (if 0 < length xs then Some [slice xs 0 0] else Some [])
      | Some b \<Rightarrow> batches_loop b xs 0 [])"

text \<open>
  \<^verbatim>\<open>SELECT * FROM sync_queue WHERE retry_count < 3 ORDER BY created_at ASC\<close>;
  rows with the same \<open>created_at\<close> stay in table order.
\<close>

definition pendingItems :: "database \<Rightarrow> queue_item list" where
  "pendingItems d = sort_key q_created_at (filter (\<lambda>q. retry_count q < 3) (sync_queue d))"

section \<open>SyncService.processBatch\<close>

text \<open>
  \<^verbatim>\<open>item.resolved_data = await this.resolveConflict(localTask, item.resolved_data as Task);\<close>
  The cast converts nothing: \<open>serverTask\<close> is the object that arrived. In
  \<open>resolveConflict\<close>, \<open>localTask.updated_at.getTime()\<close> returns (\<open>getTask\<close> builds a
  \<open>Date\<close>), and \<open>serverTask.updated_at.getTime()\<close> throws a \<open>TypeError\<close>, whatever
  \<open>updated_at\<close> holds, before the timestamps are compared.
\<close>

definition getTime_TypeError :: "wire_date \<Rightarrow> string" where
  "getTime_TypeError v =
     (case v of
        NoDate \<Rightarrow> ''Cannot read properties of undefined (reading 'getTime')''
      | NullDate \<Rightarrow> ''Cannot read properties of null (reading 'getTime')''
      | DateText _ \<Rightarrow> ''serverTask.updated_at.getTime is not a function''
      | OtherValue \<Rightarrow> ''serverTask.updated_at.getTime is not a function'')"

definition resolveConflict_on_wire :: "task \<Rightarrow> wire_task \<Rightarrow> wire_task attempt" where
  "resolveConflict_on_wire localTask serverTask =
     Throws (getTime_TypeError (w_updated_at serverTask))"

text \<open>
  The loop over \<open>processedItems\<close> in \<open>processBatch\<close>: it returns the items, those of a
  resolved conflict changed, or throws what \<open>resolveConflict\<close> throws.
\<close>

definition keep_item :: "processed_item \<Rightarrow> processed_item list attempt \<Rightarrow> processed_item list attempt" where
  \<comment> \<open>the loop goes on to the remaining items\<close>
  "keep_item item remaining =
     (case remaining of
        Throws message \<Rightarrow> Throws message
      | Returns rest \<Rightarrow> Returns (item # rest))"

fun resolve_conflicts :: "database \<Rightarrow> processed_item list \<Rightarrow> processed_item list attempt" where
  "resolve_conflicts d [] = Returns []"
| "resolve_conflicts d (item # rest) =
     (if status item = Conflict
      then (case getTask d (client_id item) of
              None \<Rightarrow> keep_item item (resolve_conflicts d rest)
            | Some localTask \<Rightarrow>
                (case resolved_data item of
                   None \<Rightarrow> keep_item item (resolve_conflicts d rest)
                 | Some serverTask \<Rightarrow>
                     (case resolveConflict_on_wire localTask serverTask of
                        Throws message \<Rightarrow> Throws message
                      | Returns winner \<Rightarrow>
                          keep_item (item\<lparr>resolved_data := Some winner, status := Success\<rparr>)
                            (resolve_conflicts d rest))))
      else keep_item item (resolve_conflicts d rest))"

definition processBatch :: "environment \<Rightarrow> queue_item list \<Rightarrow> run \<Rightarrow> processed_item list attempt \<times> run" where
  "processBatch env batch st =
     (let batchRequest = \<lparr>items = batch, client_timestamp = clock env (ticks st)\<rparr>;
          st1 = st\<lparr>posts := posts st @ [batchRequest], ticks := Suc (ticks st)\<rparr>
      in case post env (length (posts st)) batchRequest of
           Throws message \<Rightarrow> (Throws message, st1)
         | Returns processedItems \<Rightarrow> (resolve_conflicts (db st1) processedItems, st1))"

section \<open>SyncService.sync\<close>

text \<open>
  \<open>batch.find(b => b.task_id === item.client_id)!\<close> is \<open>undefined\<close> when no item of the
  batch has that task; \<open>handleSyncError\<close> then throws a \<open>TypeError\<close> on its first line,
  inside the \<open>try\<close> block of \<open>sync\<close>.
\<close>

definition undefined_item_message :: string where
  "undefined_item_message = ''Cannot read properties of undefined (reading 'retry_count')''"

definition record_error :: "environment \<Rightarrow> string \<Rightarrow> string \<Rightarrow> string \<Rightarrow> run \<Rightarrow> run" where
  \<comment> \<open>\<open>failedItems++; errors.push({task_id, operation, error, timestamp: new Date()})\<close>\<close>
  "record_error env tid opn message st =
     st\<lparr>failedItems := Suc (failedItems st),
        errs := errs st @ [\<lparr>e_task_id = tid, e_operation = opn, e_error = message,
                            e_timestamp = clock env (ticks st)\<rparr>],
        ticks := Suc (ticks st)\<rparr>"

text \<open>
  The loop over \<open>batchResponse.processed_items\<close>: it ends normally (\<open>None\<close>) or throws
  (\<open>Some message\<close>), in the state reached so far.
\<close>

fun apply_verdicts :: "environment \<Rightarrow> queue_item list \<Rightarrow> processed_item list \<Rightarrow> run \<Rightarrow> string option \<times> run" where
  "apply_verdicts env batch [] st = (None, st)"
| "apply_verdicts env batch (item # rest) st =
     (if status item = Success
      then apply_verdicts env batch rest
             (st\<lparr>db := updateSyncStatus (client_id item) Synced (resolved_data item)
                          (clock env (ticks st)) (db st),
                 ticks := Suc (ticks st),
                 syncedItems := Suc (syncedItems st)\<rparr>)
      else (let message = (case error item of
                             None \<Rightarrow> ''Sync failed''
                           | Some m \<Rightarrow> if m = [] then ''Sync failed'' else m)
            in case find (\<lambda>b. task_id b = client_id item) batch of
                 None \<Rightarrow> (Some undefined_item_message, st)
               | Some b \<Rightarrow>
                   apply_verdicts env batch rest
                     (record_error env (client_id item) (operation_name (operation b)) message
                        (st\<lparr>db := handleSyncError b message (db st)\<rparr>))))"

text \<open>The \<open>catch\<close> block: every item of the batch fails with the error's message.\<close>

fun fail_batch :: "environment \<Rightarrow> string \<Rightarrow> queue_item list \<Rightarrow> run \<Rightarrow> run" where
  "fail_batch env message [] st = st"
| "fail_batch env message (item # rest) st =
     fail_batch env message rest
       (record_error env (task_id item) (operation_name (operation item)) message
          (st\<lparr>db := handleSyncError item message (db st)\<rparr>))"

definition sync_batch :: "environment \<Rightarrow> queue_item list \<Rightarrow> run \<Rightarrow> run" where
  \<comment> \<open>the body of \<open>for (const batch of batches)\<close>\<close>
  "sync_batch env batch st =
     (case processBatch env batch st of
        (Throws message, st1) \<Rightarrow> fail_batch env message batch st1
      | (Returns processed, st1) \<Rightarrow>
          (case apply_verdicts env batch processed st1 of
             (None, st2) \<Rightarrow> st2
           | (Some message, st2) \<Rightarrow> fail_batch env message batch st2))"

fun run_batches :: "environment \<Rightarrow> queue_item list list \<Rightarrow> run \<Rightarrow> run" where
  "run_batches env [] st = st"
| "run_batches env (batch # rest) st = run_batches env rest (sync_batch env batch st)"

definition start :: "database \<Rightarrow> run" where
  "start d = \<lparr>db = d, syncedItems = 0, failedItems = 0, errs = [], posts = [], ticks = 0\<rparr>"

text \<open>
  \<open>sync\<close> returns the state the run ends in together with the \<open>SyncResult\<close>; \<open>None\<close> when
  the batching loop never ends.
\<close>

definition sync :: "environment \<Rightarrow> database \<Rightarrow> (run \<times> SyncResult) option" where
  "sync env d =
     (if \<not> checkConnectivity env
      then Some ((start d)\<lparr>ticks := 1\<rparr>,
                 \<lparr>success = False, synced_items = 0, failed_items = 0,
                  errors = [\<lparr>e_task_id = [], e_operation = ''sync'',
                             e_error = ''Server is not reachable'',
                             e_timestamp = clock env 0\<rparr>]\<rparr>)
      else (let syncQueueItems = pendingItems d
            in if length syncQueueItems = 0
               then Some (start d, \<lparr>success = True, synced_items = 0, failed_items = 0, errors = []\<rparr>)
               else (case make_batches (BATCH_SIZE env) syncQueueItems of
                       None \<Rightarrow> None
                     | Some batches \<Rightarrow>
                         (let st = run_batches env batches (start d)
                          in Some (st, \<lparr>success = (failedItems st = 0),
                                        synced_items = syncedItems st,
                                        failed_items = failedItems st,
                                        errors = errs st\<rparr>)))))"

section \<open>Example data\<close>

text \<open>
  Task \<open>A\<close> was edited locally at time 1000 and has one update queued; the server holds a
  version edited at time 2000.
\<close>

definition local_A :: task where
  "local_A = \<lparr>t_id = ''A'', title = ''Local Update'', description = None, completed = False,
              created_at = 100, updated_at = 1000, is_deleted = False, sync_status = Pending,
              server_id = Some ''srv_1'', last_synced_at = Some 500\<rparr>"

definition server_A :: task where
  "server_A = \<lparr>t_id = ''A'', title = ''Server Update'', description = None, completed = False,
               created_at = 100, updated_at = 2000, is_deleted = False, sync_status = Synced,
               server_id = Some ''srv_1'', last_synced_at = Some 500\<rparr>"

text \<open>The server's version as it arrives in a response.\<close>

definition wire_A :: wire_task where
  "wire_A = \<lparr>w_id = Some ''A'', w_title = Some ''Server Update'', w_description = None,
             w_completed = Some False, w_created_at = DateText ''1970-01-01T00:00:00.100Z'',
             w_updated_at = DateText ''1970-01-01T00:00:02.000Z'', w_is_deleted = Some False,
             w_sync_status = Some Synced, w_server_id = Some ''srv_1'',
             w_last_synced_at = DateText ''1970-01-01T00:00:00.500Z''\<rparr>"

definition item_1 :: queue_item where
  "item_1 = \<lparr>q_id = ''sync_1'', task_id = ''A'', operation = Update, data = local_A,
             q_created_at = 1001, retry_count = 0, q_error_message = None\<rparr>"

definition item_2 :: queue_item where
  "item_2 = \<lparr>q_id = ''sync_2'', task_id = ''A'', operation = Update, data = local_A,
             q_created_at = 1002, retry_count = 0, q_error_message = None\<rparr>"

definition db_A :: database where
  "db_A = \<lparr>tasks = [task.extend local_A \<lparr>error_message = None\<rparr>], sync_queue = [item_1]\<rparr>"

definition offline_env :: environment where
  "offline_env = \<lparr>health = Throws ''timeout of 5000ms exceeded'',
                   post = (\<lambda>n request. Throws ''Network Error''),
                   clock = (\<lambda>n. 5000 + int n),
                   SYNC_BATCH_SIZE = Unset\<rparr>"

text \<open>The server is reachable and answers the first batch with a conflict for task \<open>A\<close>.\<close>

definition conflict_env :: environment where
  "conflict_env = \<lparr>health = Returns (),
                    post = (\<lambda>n request.
                      Returns [\<lparr>client_id = ''A'', v_server_id = ''srv_1'', status = Conflict,
                                resolved_data = Some wire_A, error = None\<rparr>]),
                    clock = (\<lambda>n. 5000 + int n),
                    SYNC_BATCH_SIZE = Unset\<rparr>"

definition success_A :: processed_item where
  "success_A = \<lparr>client_id = ''A'', v_server_id = ''srv_1'', status = Success,
                 resolved_data = Some wire_A, error = None\<rparr>"

definition create_env_1 :: create_env where
  "create_env_1 = \<lparr>task_uuid = ''B'', created_now = 3000, updated_now = 3001,
                    item_uuid = ''q_B'', enqueued_now = 3002\<rparr>"

definition mutate_env_1 :: mutate_env where
  "mutate_env_1 = \<lparr>m_updated_now = 4000, m_item_uuid = ''q_A2'', m_enqueued_now = 4001\<rparr>"

definition only_completed :: partial_task where
  "only_completed = \<lparr>p_id = None, p_title = None, p_description = None, p_completed = Some True,
                      p_created_at = None, p_updated_at = None, p_is_deleted = None,
                      p_sync_status = None, p_server_id = None, p_last_synced_at = None\<rparr>"

definition task_data_B :: create_data where
  "task_data_B = \<lparr>c_title = ''Offline Task'', c_description = None, c_completed = None\<rparr>"

text \<open>
  Two updates of task \<open>A\<close> are queued, the later one first in the table; the batch size
  is 1, the server confirms the first batch and the second request times out.
\<close>

definition db_AA :: database where
  "db_AA = \<lparr>tasks = [task.extend local_A \<lparr>error_message = None\<rparr>], sync_queue = [item_2, item_1]\<rparr>"

definition split_env :: environment where
  "split_env = \<lparr>health = Returns (),
                 post = (\<lambda>n request. if n = 0 then Returns [success_A]
                                       else Throws ''timeout of 30000ms exceeded''),
                 clock = (\<lambda>n. 5000 + int n),
                 SYNC_BATCH_SIZE = ParsesTo 1\<rparr>"

text \<open>Nothing is queued.\<close>

definition db_idle :: database where
  "db_idle = \<lparr>tasks = [task.extend server_A \<lparr>error_message = None\<rparr>], sync_queue = []\<rparr>"

section \<open>Notions used in the statements\<close>

text \<open>The text \<open>handleSyncError\<close> stores for an error message.\<close>

definition error_text :: "string \<Rightarrow> string" where
  "error_text message = (if message = [] then ''Unknown error'' else message)"

text \<open>No row of the queue has used up its three attempts.\<close>

definition within_retry_limit :: "database \<Rightarrow> bool" where
  "within_retry_limit d = list_all (\<lambda>q. retry_count q < 3) (sync_queue d)"

text \<open>Every row of the queue that has used up its three attempts is one of \<open>old\<close>.\<close>

definition no_new_exhausted :: "queue_item list \<Rightarrow> database \<Rightarrow> bool" where
  "no_new_exhausted old d = list_all (\<lambda>q. retry_count q < 3 \<or> q \<in> set old) (sync_queue d)"

text \<open>An item that has already failed twice, alone in the queue.\<close>

definition item_last :: queue_item where
  "item_last = \<lparr>q_id = ''sync_3'', task_id = ''A'', operation = Update, data = local_A,
                q_created_at = 1003, retry_count = 2, q_error_message = Some ''Network Error''\<rparr>"

definition db_last :: database where
  "db_last = \<lparr>tasks = [task.extend local_A \<lparr>error_message = None\<rparr>], sync_queue = [item_last]\<rparr>"



text \<open>
  The batch-size setting does not parse to a number; the server is reachable and answers a
  request without items with an empty list of verdicts.
\<close>

definition nan_env :: environment where
  "nan_env = \<lparr>health = Returns (),
               post = (\<lambda>n request. Returns []),
               clock = (\<lambda>n. 5000 + int n),
               SYNC_BATCH_SIZE = NotANumber\<rparr>"

section \<open>Conflict resolution\<close>

text \<open>
  C5: the resolver returns the local version when the local last-modified timestamp is
  strictly greater, the server version when the server timestamp is strictly greater, and
  its result is determined by its two arguments alone.
\<close>

theorem C5_resolveConflict_last_write_wins:
  "(updated_at l > updated_at s \<longrightarrow> resolveConflict l s = l) \<and>
   (updated_at s > updated_at l \<longrightarrow> resolveConflict l s = s) \<and>
   (l = l' \<and> s = s' \<longrightarrow> resolveConflict l s = resolveConflict l' s')"
  by (simp add: resolveConflict_def)

theorem C5_witness:
  "updated_at local_A < updated_at server_A \<and> resolveConflict local_A server_A = server_A \<and>
   resolveConflict server_A local_A = server_A"
  using C5_resolveConflict_last_write_wins [of local_A server_A]
        C5_resolveConflict_last_write_wins [of server_A local_A]
  by (simp add: local_A_def server_A_def)

text \<open>
  C10: when the two last-modified timestamps are equal, the resolver returns the server
  version.
\<close>

theorem C10_resolveConflict_tie_server:
  "updated_at l = updated_at s \<Longrightarrow> resolveConflict l s = s"
  by (simp add: resolveConflict_def)

theorem C10_witness:
  "updated_at local_A = updated_at (server_A\<lparr>updated_at := 1000\<rparr>) \<and>
   resolveConflict local_A (server_A\<lparr>updated_at := 1000\<rparr>) = server_A\<lparr>updated_at := 1000\<rparr>"
  using C10_resolveConflict_tie_server [of local_A "server_A\<lparr>updated_at := 1000\<rparr>"]
  by (simp add: local_A_def server_A_def)

section \<open>The unreachable server\<close>

text \<open>
  C2: when the health request fails, \<open>sync\<close> returns \<open>success = false\<close>, zero synced and
  zero failed items and exactly one error entry, the one describing unreachability; both
  tables are as they were (no row removed, no retry counter changed) and no batch has been
  sent.
\<close>

theorem C2_sync_unreachable:
  assumes "\<not> checkConnectivity env"
  shows "\<exists>st r. sync env d = Some (st, r) \<and> db st = d \<and> posts st = [] \<and>
           success r = False \<and> synced_items r = 0 \<and> failed_items r = 0 \<and>
           length (errors r) = 1 \<and>
           errors r = [\<lparr>e_task_id = [], e_operation = ''sync'',
                        e_error = ''Server is not reachable'', e_timestamp = clock env 0\<rparr>]"
  using assms by (simp add: sync_def start_def)

theorem C2_witness:
  "\<not> checkConnectivity offline_env \<and>
   (\<exists>st r. sync offline_env db_A = Some (st, r) \<and> db st = db_A \<and> posts st = [] \<and>
      success r = False \<and> synced_items r = 0 \<and> failed_items r = 0 \<and>
      length (errors r) = 1 \<and>
      errors r = [\<lparr>e_task_id = [], e_operation = ''sync'',
                   e_error = ''Server is not reachable'', e_timestamp = clock offline_env 0\<rparr>])"
proof -
  have off: "\<not> checkConnectivity offline_env"
    by (simp add: checkConnectivity_def offline_env_def)
  from C2_sync_unreachable [OF off, of db_A] off show ?thesis by simp
qed

section \<open>Applying a success verdict\<close>

lemma updateSyncStatus_synced_tasks:
  "tasks (updateSyncStatus taskId Synced serverData now d) =
     map (\<lambda>row. if t_id row = taskId
                then row\<lparr>sync_status := Synced, last_synced_at := Some now,
                         server_id := (case truthy_server_id serverData of
                                         None \<Rightarrow> server_id row | Some sid \<Rightarrow> Some sid)\<rparr>
                else row) (tasks d)"
  by (cases "truthy_server_id serverData") (simp_all add: updateSyncStatus_def Let_def)

lemma updateSyncStatus_synced_queue:
  "sync_queue (updateSyncStatus taskId Synced serverData now d) =
     filter (\<lambda>q. task_id q \<noteq> taskId) (sync_queue d)"
  by (simp add: updateSyncStatus_def Let_def)

text \<open>
  C9: applying a success verdict for task \<open>client_id item\<close> keeps the number of task rows;
  in every row the title, description, completed flag and deletion flag (and the
  identifier, both timestamps of the task and the stored error message) are unchanged; a
  row of another task is unchanged altogether; a row of this task gets status \<open>Synced\<close>,
  the time of the update as \<open>last_synced_at\<close>, and the server identifier of the resolved
  data when that carries a non-empty one. From the queue, every row whose \<open>task_id\<close> is
  this task's is deleted, and no other.
\<close>

theorem C9_success_verdict_frame:
  assumes "status item = Success"
  shows "let d = db st;
             d' = db (snd (apply_verdicts env batch [item] st));
             taskId = client_id item
         in length (tasks d') = length (tasks d) \<and>
            (\<forall>i < length (tasks d).
               let row = tasks d ! i; row' = tasks d' ! i
               in title row' = title row \<and> description row' = description row \<and>
                  completed row' = completed row \<and> is_deleted row' = is_deleted row \<and>
                  t_id row' = t_id row \<and> created_at row' = created_at row \<and>
                  updated_at row' = updated_at row \<and> error_message row' = error_message row \<and>
                  (t_id row \<noteq> taskId \<longrightarrow> row' = row) \<and>
                  (t_id row = taskId \<longrightarrow>
                     sync_status row' = Synced \<and>
                     last_synced_at row' = Some (clock env (ticks st)) \<and>
                     server_id row' = (case truthy_server_id (resolved_data item) of
                                         None \<Rightarrow> server_id row | Some sid \<Rightarrow> Some sid))) \<and>
            sync_queue d' = filter (\<lambda>q. task_id q \<noteq> taskId) (sync_queue d)"
  using assms
  by (simp add: Let_def updateSyncStatus_synced_tasks updateSyncStatus_synced_queue)

theorem C9_witness:
  "status success_A = Success \<and>
   title (tasks (db (snd (apply_verdicts conflict_env [item_1] [success_A] (start db_A)))) ! 0) = ''Local Update'' \<and>
   sync_status (tasks (db (snd (apply_verdicts conflict_env [item_1] [success_A] (start db_A)))) ! 0) = Synced \<and>
   sync_queue (db (snd (apply_verdicts conflict_env [item_1] [success_A] (start db_A)))) = []"
proof -
  have h: "status success_A = Success" by (simp add: success_A_def)
  have len: "length (tasks (db (start db_A))) = 1" by (simp add: start_def db_A_def)
  have row: "tasks (db (start db_A)) ! 0 = task.extend local_A \<lparr>error_message = None\<rparr>"
    by (simp add: start_def db_A_def)
  have q: "sync_queue (db (start db_A)) = [item_1]" by (simp add: start_def db_A_def)
  have cid: "client_id success_A = ''A''" by (simp add: success_A_def)
  note inst = C9_success_verdict_frame [OF h, of "start db_A" conflict_env "[item_1]",
      unfolded Let_def len q cid]
  from inst have "title (tasks (db (snd (apply_verdicts conflict_env [item_1] [success_A] (start db_A)))) ! 0) = title (tasks (db (start db_A)) ! 0)"
    by simp
  moreover from inst have "t_id (tasks (db (start db_A)) ! 0) = ''A'' \<longrightarrow> sync_status (tasks (db (snd (apply_verdicts conflict_env [item_1] [success_A] (start db_A)))) ! 0) = Synced"
    by simp
  moreover from inst have "sync_queue (db (snd (apply_verdicts conflict_env [item_1] [success_A] (start db_A)))) = filter (\<lambda>q. task_id q \<noteq> ''A'') [item_1]"
    by simp
  ultimately show ?thesis using h
    by (simp add: row local_A_def task.extend_def item_1_def)
qed

section \<open>Task mutations\<close>

text \<open>
  C8: \<open>createTask\<close> appends a task row with status \<open>Pending\<close> and the time of the call
  as last-modified timestamp, and appends exactly one queue row, of kind \<open>Create\<close>, whose
  payload is the new task. \<open>updateTask\<close> on a task that \<open>getTask\<close> finds sets, in the rows
  of that task, the status to \<open>Pending\<close>, the last-modified timestamp to the time of the
  call and title, description and completed flag to those of the merged task; it leaves
  every other row as it was and appends exactly one queue row, of kind \<open>Update\<close>, whose
  payload is the merged task it returns. \<open>deleteTask\<close> on a task that \<open>getTask\<close> finds
  keeps every row: in the rows of that task it sets the deletion flag, the status
  \<open>Pending\<close> and the last-modified timestamp; it appends exactly one queue row, of kind
  \<open>Delete\<close>, whose payload is the task as read before the deletion with the deletion flag
  set. Every new queue row starts with retry counter 0 and no error message.
\<close>

theorem C8_task_mutations_enqueue:
  "(case createTask ce taskData d of (d', t) \<Rightarrow>
      tasks d' = tasks d @ [task.extend t \<lparr>error_message = None\<rparr>] \<and>
      sync_status t = Pending \<and> updated_at t = updated_now ce \<and>
      title t = c_title taskData \<and> description t = c_description taskData \<and>
      \<not> is_deleted t \<and>
      sync_queue d' = sync_queue d @
        [\<lparr>q_id = item_uuid ce, task_id = t_id t, operation = Create, data = t,
          q_created_at = enqueued_now ce, retry_count = 0, q_error_message = None\<rparr>]) \<and>
   (getTask d ident = Some existing \<longrightarrow>
      (case updateTask e ident updates d of (d', r) \<Rightarrow>
         \<exists>u. r = Some u \<and> sync_status u = Pending \<and> updated_at u = m_updated_now e \<and>
           length (tasks d') = length (tasks d) \<and>
           (\<forall>i < length (tasks d).
              if t_id (tasks d ! i) = ident
              then sync_status (tasks d' ! i) = Pending \<and>
                   updated_at (tasks d' ! i) = m_updated_now e \<and>
                   title (tasks d' ! i) = title u \<and>
                   description (tasks d' ! i) = description u \<and>
                   completed (tasks d' ! i) = completed u \<and>
                   is_deleted (tasks d' ! i) = is_deleted (tasks d ! i)
              else tasks d' ! i = tasks d ! i) \<and>
           sync_queue d' = sync_queue d @
             [\<lparr>q_id = m_item_uuid e, task_id = ident, operation = Update, data = u,
               q_created_at = m_enqueued_now e, retry_count = 0, q_error_message = None\<rparr>])) \<and>
   (getTask d ident = Some existing \<longrightarrow>
      (case deleteTask e ident d of (d', r) \<Rightarrow>
         r \<and> length (tasks d') = length (tasks d) \<and>
         (\<forall>i < length (tasks d).
            if t_id (tasks d ! i) = ident
            then is_deleted (tasks d' ! i) \<and> sync_status (tasks d' ! i) = Pending \<and>
                 updated_at (tasks d' ! i) = m_updated_now e \<and>
                 title (tasks d' ! i) = title (tasks d ! i) \<and>
                 description (tasks d' ! i) = description (tasks d ! i) \<and>
                 completed (tasks d' ! i) = completed (tasks d ! i)
            else tasks d' ! i = tasks d ! i) \<and>
         sync_queue d' = sync_queue d @
           [\<lparr>q_id = m_item_uuid e, task_id = ident, operation = Delete,
             data = existing\<lparr>is_deleted := True\<rparr>,
             q_created_at = m_enqueued_now e, retry_count = 0, q_error_message = None\<rparr>]))"
proof (intro conjI impI)
  show "case createTask ce taskData d of (d', t) \<Rightarrow>
      tasks d' = tasks d @ [task.extend t \<lparr>error_message = None\<rparr>] \<and>
      sync_status t = Pending \<and> updated_at t = updated_now ce \<and>
      title t = c_title taskData \<and> description t = c_description taskData \<and>
      \<not> is_deleted t \<and>
      sync_queue d' = sync_queue d @
        [\<lparr>q_id = item_uuid ce, task_id = t_id t, operation = Create, data = t,
          q_created_at = enqueued_now ce, retry_count = 0, q_error_message = None\<rparr>]"
    by (simp add: createTask_def Let_def insert_queue_item_def default_retry_count_def
          default_error_message_def)
next
  assume "getTask d ident = Some existing"
  then show "case updateTask e ident updates d of (d', r) \<Rightarrow>
         \<exists>u. r = Some u \<and> sync_status u = Pending \<and> updated_at u = m_updated_now e \<and>
           length (tasks d') = length (tasks d) \<and>
           (\<forall>i < length (tasks d).
              if t_id (tasks d ! i) = ident
              then sync_status (tasks d' ! i) = Pending \<and>
                   updated_at (tasks d' ! i) = m_updated_now e \<and>
                   title (tasks d' ! i) = title u \<and>
                   description (tasks d' ! i) = description u \<and>
                   completed (tasks d' ! i) = completed u \<and>
                   is_deleted (tasks d' ! i) = is_deleted (tasks d ! i)
              else tasks d' ! i = tasks d ! i) \<and>
           sync_queue d' = sync_queue d @
             [\<lparr>q_id = m_item_uuid e, task_id = ident, operation = Update, data = u,
               q_created_at = m_enqueued_now e, retry_count = 0, q_error_message = None\<rparr>]"
    by (simp add: updateTask_def Let_def insert_queue_item_def default_retry_count_def
          default_error_message_def)
next
  assume "getTask d ident = Some existing"
  then show "case deleteTask e ident d of (d', r) \<Rightarrow>
         r \<and> length (tasks d') = length (tasks d) \<and>
         (\<forall>i < length (tasks d).
            if t_id (tasks d ! i) = ident
            then is_deleted (tasks d' ! i) \<and> sync_status (tasks d' ! i) = Pending \<and>
                 updated_at (tasks d' ! i) = m_updated_now e \<and>
                 title (tasks d' ! i) = title (tasks d ! i) \<and>
                 description (tasks d' ! i) = description (tasks d ! i) \<and>
                 completed (tasks d' ! i) = completed (tasks d ! i)
            else tasks d' ! i = tasks d ! i) \<and>
         sync_queue d' = sync_queue d @
           [\<lparr>q_id = m_item_uuid e, task_id = ident, operation = Delete,
             data = existing\<lparr>is_deleted := True\<rparr>,
             q_created_at = m_enqueued_now e, retry_count = 0, q_error_message = None\<rparr>]"
    by (simp add: deleteTask_def Let_def insert_queue_item_def default_retry_count_def
          default_error_message_def)
qed

theorem C8_witness:
  "getTask db_A ''A'' = Some local_A \<and>
   sync_status (snd (createTask create_env_1 task_data_B db_A)) = Pending \<and>
   map operation (sync_queue (fst (createTask create_env_1 task_data_B db_A))) = [Update, Create] \<and>
   map operation (sync_queue (fst (updateTask mutate_env_1 ''A'' only_completed db_A))) = [Update, Update] \<and>
   map operation (sync_queue (fst (deleteTask mutate_env_1 ''A'' db_A))) = [Update, Delete] \<and>
   length (tasks (fst (deleteTask mutate_env_1 ''A'' db_A))) = 1 \<and>
   is_deleted (tasks (fst (deleteTask mutate_env_1 ''A'' db_A)) ! 0)"
proof -
  have g: "getTask db_A ''A'' = Some local_A"
    by (simp add: getTask_def db_A_def task.truncate_def task.extend_def local_A_def)
  have len: "length (tasks db_A) = 1" and q: "sync_queue db_A = [item_1]"
    and i: "t_id (tasks db_A ! 0) = ''A''"
    by (simp_all add: db_A_def task.extend_def local_A_def)
  note inst = C8_task_mutations_enqueue [where ce = create_env_1 and taskData = task_data_B
      and d = db_A and ident = "''A''" and existing = local_A and e = mutate_env_1
      and updates = only_completed, unfolded split_beta len q]
  from inst have "sync_status (snd (createTask create_env_1 task_data_B db_A)) = Pending"
    by simp
  moreover from inst have "map operation (sync_queue (fst (createTask create_env_1 task_data_B db_A))) = [operation item_1, Create]"
    by simp
  moreover from inst g have "map operation (sync_queue (fst (updateTask mutate_env_1 ''A'' only_completed db_A))) = [operation item_1, Update]"
    by auto
  moreover from inst g have "map operation (sync_queue (fst (deleteTask mutate_env_1 ''A'' db_A))) = [operation item_1, Delete]"
    by simp
  moreover from inst g have "length (tasks (fst (deleteTask mutate_env_1 ''A'' db_A))) = 1"
    by simp
  moreover from inst g i have "is_deleted (tasks (fst (deleteTask mutate_env_1 ''A'' db_A)) ! 0)"
    by simp
  ultimately show ?thesis using g by (simp add: item_1_def)
qed

section \<open>Reading and batching the queue\<close>

lemma slice_upto:
  assumes "0 \<le> i" "0 < B"
  shows "slice xs i (i + B) = take (nat B) (drop (nat i) xs)"
  using assms by (auto simp: slice_def Let_def min_def)

lemma batches_loop_total:
  assumes "0 < B"
  shows "0 \<le> i \<Longrightarrow> \<exists>bs. batches_loop B xs i acc = Some (acc @ bs) \<and>
           concat bs = drop (nat i) xs \<and>
           (\<forall>b \<in> set bs. b \<noteq> [] \<and> int (length b) \<le> B) \<and>
           (\<forall>b \<in> set (butlast bs). int (length b) = B)"
proof (induction "length xs - nat i" arbitrary: i acc rule: less_induct)
  case less
  show ?case
  proof (cases "i < int (length xs)")
    case False
    then show ?thesis using less.prems
      by (subst batches_loop.simps) simp
  next
    case True
    let ?b = "slice xs i (i + B)"
    have b: "?b = take (nat B) (drop (nat i) xs)"
      using less.prems assms by (rule slice_upto)
    have "length xs - nat (i + B) < length xs - nat i"
      using True less.prems assms by linarith
    moreover have "0 \<le> i + B" using less.prems assms by simp
    ultimately obtain bs where bs: "batches_loop B xs (i + B) (acc @ [?b]) = Some ((acc @ [?b]) @ bs)"
      "concat bs = drop (nat (i + B)) xs"
      "\<forall>b \<in> set bs. b \<noteq> [] \<and> int (length b) \<le> B"
      "\<forall>b \<in> set (butlast bs). int (length b) = B"
      using less.hyps [of "i + B" "acc @ [?b]"] by blast
    have step: "batches_loop B xs i acc = Some (acc @ (?b # bs))"
      using True bs(1) by (subst batches_loop.simps) simp
    have nb: "nat (i + B) = nat B + nat i" using less.prems assms by linarith
    have cc: "concat (?b # bs) = drop (nat i) xs"
      using bs(2) by (simp add: b nb) (metis add.commute append_take_drop_id drop_drop)
    have ne: "?b \<noteq> []" using True less.prems assms by (simp add: b)
    have le: "int (length ?b) \<le> B" using assms by (simp add: b)
    have full: "bs \<noteq> [] \<Longrightarrow> int (length ?b) = B"
    proof -
      assume "bs \<noteq> []"
      then obtain c where "c \<in> set bs" by (cases bs) auto
      with bs(3) have "concat bs \<noteq> []" by auto
      with bs(2) have "nat (i + B) < length xs" by simp
      then show ?thesis using assms less.prems by (simp add: b nb)
    qed
    show ?thesis
      using step cc ne le bs(3,4) full by (intro exI [of _ "?b # bs"]) auto
  qed
qed

text \<open>With a batch size of 0 or less the loop does not end once it has started.\<close>

lemma batches_loop_diverges:
  assumes "batches_loop B xs i acc = Some y"
  shows "\<not> (B \<le> 0 \<and> i < int (length xs))"
  using assms
proof (induction rule: batches_loop.raw_induct [rotated 1, consumes 1])
  case (1 f B xs i acc y)
  show ?case
  proof
    assume a: "B \<le> 0 \<and> i < int (length xs)"
    with 1(2) have "f B xs (i + B) (acc @ [slice xs i (i + B)]) = Some y" by simp
    from 1(1) [OF this] a show False by simp
  qed
qed

lemma batches_loop_never_ends:
  assumes "B \<le> 0" "i < int (length xs)"
  shows "batches_loop B xs i acc = None"
proof (cases "batches_loop B xs i acc")
  case None
  then show ?thesis .
next
  case (Some y)
  from batches_loop_diverges [OF Some] assms show ?thesis by simp
qed

lemma sync_never_returns:
  assumes "checkConnectivity env" "BATCH_SIZE env = Some B" "B \<le> 0" "pendingItems d \<noteq> []"
  shows "sync env d = None"
proof -
  have "(0::int) < int (length (pendingItems d))" using assms(4) by simp
  from batches_loop_never_ends [OF assms(3) this, of "[]"] assms(1,2,4)
  show ?thesis by (simp add: sync_def Let_def make_batches_def)
qed

lemma batches_loop_subset:
  assumes "batches_loop B xs i acc = Some y"
  shows "set (concat y) \<subseteq> set (concat acc) \<union> set xs"
  using assms
proof (induction rule: batches_loop.raw_induct [rotated 1, consumes 1])
  case (1 f B xs i acc y)
  have s: "set (slice xs i (i + B)) \<subseteq> set xs"
    by (auto simp: slice_def Let_def dest: in_set_takeD in_set_dropD)
  show ?case
  proof (cases "i < int (length xs)")
    case True
    with 1(2) have "f B xs (i + B) (acc @ [slice xs i (i + B)]) = Some y" by simp
    from 1(1) [OF this] s show ?thesis by auto
  next
    case False
    with 1(2) show ?thesis by auto
  qed
qed

lemma make_batches_positive:
  assumes "0 < B"
  shows "\<exists>bs. make_batches (Some B) xs = Some bs \<and> concat bs = xs \<and>
           (\<forall>b \<in> set bs. b \<noteq> [] \<and> int (length b) \<le> B) \<and>
           (\<forall>b \<in> set (butlast bs). int (length b) = B)"
  using batches_loop_total [OF assms, of 0 xs "[]"] by (simp add: make_batches_def)

lemma make_batches_subset:
  assumes "make_batches B xs = Some bs"
  shows "set (concat bs) \<subseteq> set xs"
proof (cases B)
  case None
  with assms show ?thesis by (auto simp: make_batches_def slice_def split: if_splits)
next
  case (Some b)
  with assms batches_loop_subset [of b xs 0 "[]" bs] show ?thesis
    by (simp add: make_batches_def)
qed

lemma posts_record_error [simp]: "posts (record_error env tid opn message st) = posts st"
  by (simp add: record_error_def)

lemma posts_fail_batch [simp]: "posts (fail_batch env message batch st) = posts st"
  by (induction batch arbitrary: st) simp_all

lemma posts_apply_verdicts [simp]: "posts (snd (apply_verdicts env batch processed st)) = posts st"
  by (induction processed arbitrary: st) (simp_all add: Let_def split: option.splits)

lemma posts_sync_batch:
  "posts (sync_batch env batch st) =
     posts st @ [\<lparr>items = batch, client_timestamp = clock env (ticks st)\<rparr>]"
proof -
  obtain a st1 where p: "processBatch env batch st = (a, st1)" by (cases "processBatch env batch st")
  then have st1: "posts st1 = posts st @ [\<lparr>items = batch, client_timestamp = clock env (ticks st)\<rparr>]"
    by (auto simp: processBatch_def Let_def split: attempt.splits)
  show ?thesis
  proof (cases a)
    case (Throws m)
    with p st1 show ?thesis by (simp add: sync_batch_def)
  next
    case (Returns processed)
    obtain r st2 where v: "apply_verdicts env batch processed st1 = (r, st2)"
      by (cases "apply_verdicts env batch processed st1")
    from posts_apply_verdicts [of env batch processed st1] v have "posts st2 = posts st1" by simp
    with p st1 Returns v show ?thesis by (cases r) (simp_all add: sync_batch_def)
  qed
qed

lemma items_posts_run_batches:
  "map items (posts (run_batches env batches st)) = map items (posts st) @ batches"
  by (induction batches arbitrary: st) (simp_all add: posts_sync_batch)

lemma mset_pendingItems:
  "mset (pendingItems d) = filter_mset (\<lambda>q. retry_count q < 3) (mset (sync_queue d))"
  by (simp add: pendingItems_def)

lemma sorted_pendingItems: "sorted (map q_created_at (pendingItems d))"
  by (simp add: pendingItems_def)

lemma pendingItems_db_A: "pendingItems db_A = [item_1]"
  by (simp add: pendingItems_def db_A_def item_1_def)

lemma pendingItems_db_AA: "pendingItems db_AA = [item_1, item_2]"
  by (simp add: pendingItems_def db_AA_def item_1_def item_2_def)

lemma pendingItems_db_idle: "pendingItems db_idle = []"
  by (simp add: pendingItems_def db_idle_def)

lemma online_conflict_env: "checkConnectivity conflict_env"
  by (simp add: checkConnectivity_def conflict_env_def)

lemma online_split_env: "checkConnectivity split_env"
  by (simp add: checkConnectivity_def split_env_def)

text \<open>
  C6, as amended: with the server reachable and a positive batch size \<open>B\<close> (50 when the setting is
  absent), \<open>sync\<close> returns, and the
  requests it has sent, in the order sent, carry consecutive pieces of the list of pending
  items: their concatenation is that list. The pending items are exactly the queue rows
  with retry counter below 3, each as often as it is stored, ordered by enqueue time
  ascending. No request is empty, none carries more than \<open>B\<close> items, and every request but
  the last carries exactly \<open>B\<close>. What the server answers does not matter.
\<close>

theorem C6_pending_read_and_batched:
  assumes "checkConnectivity env" and "BATCH_SIZE env = Some B" and "0 < B"
  shows "(SYNC_BATCH_SIZE env = Unset \<longrightarrow> B = 50) \<and>
         (\<exists>st r. sync env d = Some (st, r) \<and>
           concat (map items (posts st)) = pendingItems d \<and>
           mset (pendingItems d) = filter_mset (\<lambda>q. retry_count q < 3) (mset (sync_queue d)) \<and>
           sorted (map q_created_at (pendingItems d)) \<and>
           (\<forall>request \<in> set (posts st).
              items request \<noteq> [] \<and> int (length (items request)) \<le> B) \<and>
           (\<forall>request \<in> set (butlast (posts st)). int (length (items request)) = B))"
proof (rule conjI)
  show "SYNC_BATCH_SIZE env = Unset \<longrightarrow> B = 50"
    using assms(2) by (auto simp: BATCH_SIZE_def)
next
  show "\<exists>st r. sync env d = Some (st, r) \<and>
           concat (map items (posts st)) = pendingItems d \<and>
           mset (pendingItems d) = filter_mset (\<lambda>q. retry_count q < 3) (mset (sync_queue d)) \<and>
           sorted (map q_created_at (pendingItems d)) \<and>
           (\<forall>request \<in> set (posts st).
              items request \<noteq> [] \<and> int (length (items request)) \<le> B) \<and>
           (\<forall>request \<in> set (butlast (posts st)). int (length (items request)) = B)"
  proof (cases "pendingItems d = []")
  case True
  with assms(1) have "sync env d = Some (start d, \<lparr>success = True, synced_items = 0, failed_items = 0, errors = []\<rparr>)"
    by (simp add: sync_def)
  then show ?thesis using True
    by (simp add: start_def mset_pendingItems [symmetric])
next
  case False
  from make_batches_positive [OF assms(3), of "pendingItems d"]
  obtain bs where bs: "make_batches (Some B) (pendingItems d) = Some bs"
    "concat bs = pendingItems d"
    "\<forall>b \<in> set bs. b \<noteq> [] \<and> int (length b) \<le> B"
    "\<forall>b \<in> set (butlast bs). int (length b) = B"
    by blast
  let ?st = "run_batches env bs (start d)"
  have ret: "sync env d = Some (?st, \<lparr>success = (failedItems ?st = 0),
      synced_items = syncedItems ?st, failed_items = failedItems ?st, errors = errs ?st\<rparr>)"
    using assms(1,2) False bs(1) by (simp add: sync_def Let_def)
  have its: "map items (posts ?st) = bs"
    using items_posts_run_batches [of env bs "start d"] by (simp add: start_def)
  have a: "concat (map items (posts ?st)) = pendingItems d" using its bs(2) by simp
  have b: "\<forall>request \<in> set (posts ?st). items request \<noteq> [] \<and> int (length (items request)) \<le> B"
    using bs(3) its by (metis imageI list.set_map)
  have c: "\<forall>request \<in> set (butlast (posts ?st)). int (length (items request)) = B"
    using bs(4) its by (metis imageI list.set_map map_butlast)
  show ?thesis
    using ret a b c mset_pendingItems sorted_pendingItems by blast
qed
qed

theorem C6_witness:
  "checkConnectivity split_env \<and> BATCH_SIZE split_env = Some 1 \<and> (0::int) < 1 \<and>
   (\<exists>st r. sync split_env db_AA = Some (st, r) \<and>
      concat (map items (posts st)) = [item_1, item_2] \<and>
      sorted (map q_created_at [item_1, item_2]) \<and>
      length (posts st) = 2)"
proof -
  have b: "BATCH_SIZE split_env = Some 1" by (simp add: BATCH_SIZE_def split_env_def)
  have p: "(0::int) < 1" by simp
  from C6_pending_read_and_batched [OF online_split_env b p, of db_AA, THEN conjunct2]
  obtain st r where st: "sync split_env db_AA = Some (st, r)"
    "concat (map items (posts st)) = pendingItems db_AA"
    "sorted (map q_created_at (pendingItems db_AA))"
    "\<forall>request \<in> set (posts st). items request \<noteq> [] \<and> int (length (items request)) \<le> 1"
    by blast
  from st(4) have one: "\<forall>request \<in> set (posts st). length (items request) = 1"
    by (auto simp: Suc_le_eq le_Suc_eq)
  have "\<And>rs :: batch_request list. \<forall>request \<in> set rs. length (items request) = 1 \<Longrightarrow>
      length (concat (map items rs)) = length rs"
  proof -
    fix rs :: "batch_request list"
    show "\<forall>request \<in> set rs. length (items request) = 1 \<Longrightarrow>
      length (concat (map items rs)) = length rs"
      by (induction rs) simp_all
  qed
  from this [OF one] have "length (concat (map items (posts st))) = length (posts st)" .
  with st(2) have "length (posts st) = 2" by (simp add: pendingItems_db_AA)
  with st(1,2,3) online_split_env b show ?thesis
    by (auto simp: pendingItems_db_AA)
qed

text \<open>
  C6 does not hold for every batch-size setting. With a setting that parses to \<open>NaN\<close>
  and one pending item, the run sends a single request without items, never sends the
  pending item, leaves it in the queue and reports success.
\<close>

theorem C6_counterexample:
  "case sync nan_env db_A of
     None \<Rightarrow> False
   | Some (st, r) \<Rightarrow>
       pendingItems db_A = [item_1] \<and> map items (posts st) = [[]] \<and>
       success r \<and> synced_items r = 0 \<and> failed_items r = 0 \<and>
       sync_queue (db st) = [item_1]"
proof -
  have on: "checkConnectivity nan_env" by (simp add: checkConnectivity_def nan_env_def)
  have b: "make_batches (BATCH_SIZE nan_env) [item_1] = Some [[]]"
    by (simp add: BATCH_SIZE_def nan_env_def make_batches_def slice_def)
  have sb: "sync_batch nan_env [] (start db_A) =
      (start db_A)\<lparr>posts := [\<lparr>items = [], client_timestamp = 5000\<rparr>], ticks := 1\<rparr>"
    by (simp add: sync_batch_def processBatch_def Let_def nan_env_def start_def)
  have "sync nan_env db_A =
      Some (sync_batch nan_env [] (start db_A),
            \<lparr>success = True, synced_items = 0, failed_items = 0, errors = []\<rparr>)"
    using on b by (simp add: sync_def Let_def pendingItems_db_A sb) (simp add: start_def)
  then show ?thesis
    by (simp add: pendingItems_db_A sb) (simp add: start_def db_A_def)
qed

section \<open>The result of a run\<close>

text \<open>
  C7: with the server reachable, every result \<open>sync\<close> returns has \<open>success\<close> true exactly
  when its failed-item count is zero; with no pending item the result is
  \<open>success = true\<close>, zero synced, zero failed, no error entry, the tables are untouched and
  nothing is sent; and \<open>sync\<close> does return when the batch size is positive (or is
  \<open>NaN\<close>).
\<close>

theorem C7_success_iff_no_failures:
  assumes "checkConnectivity env"
  shows "(\<forall>st r. sync env d = Some (st, r) \<longrightarrow> success r = (failed_items r = 0)) \<and>
         (pendingItems d = [] \<longrightarrow>
            (\<exists>st. sync env d = Some (st, \<lparr>success = True, synced_items = 0, failed_items = 0,
                                           errors = []\<rparr>) \<and> db st = d \<and> posts st = [])) \<and>
         (BATCH_SIZE env = None \<or> (\<exists>B. BATCH_SIZE env = Some B \<and> 0 < B) \<longrightarrow>
            (\<exists>st r. sync env d = Some (st, r)))"
proof (intro conjI allI impI)
  fix st r
  assume "sync env d = Some (st, r)"
  with assms show "success r = (failed_items r = 0)"
    by (auto simp: sync_def Let_def split: if_splits option.splits)
next
  assume "pendingItems d = []"
  with assms show "\<exists>st. sync env d = Some (st, \<lparr>success = True, synced_items = 0,
      failed_items = 0, errors = []\<rparr>) \<and> db st = d \<and> posts st = []"
    by (simp add: sync_def start_def)
next
  assume b: "BATCH_SIZE env = None \<or> (\<exists>B. BATCH_SIZE env = Some B \<and> 0 < B)"
  have "\<exists>bs. make_batches (BATCH_SIZE env) (pendingItems d) = Some bs"
  proof (cases "BATCH_SIZE env")
    case None
    then show ?thesis by (simp add: make_batches_def)
  next
    case (Some B)
    with b have "0 < B" by simp
    from make_batches_positive [OF this, of "pendingItems d"] Some show ?thesis by auto
  qed
  then show "\<exists>st r. sync env d = Some (st, r)"
    using assms by (auto simp: sync_def Let_def)
qed

theorem C7_witness:
  "checkConnectivity conflict_env \<and> pendingItems db_idle = [] \<and>
   (\<exists>st. sync conflict_env db_idle =
      Some (st, \<lparr>success = True, synced_items = 0, failed_items = 0, errors = []\<rparr>)) \<and>
   (\<exists>B. BATCH_SIZE conflict_env = Some B \<and> 0 < B) \<and>
   (\<exists>st r. sync conflict_env db_A = Some (st, r) \<and> success r = (failed_items r = 0))"
proof -
  note inst = C7_success_iff_no_failures [OF online_conflict_env]
  have b: "\<exists>B. BATCH_SIZE conflict_env = Some B \<and> 0 < B"
    by (simp add: BATCH_SIZE_def conflict_env_def)
  from inst [of db_idle] pendingItems_db_idle
  have 1: "\<exists>st. sync conflict_env db_idle =
      Some (st, \<lparr>success = True, synced_items = 0, failed_items = 0, errors = []\<rparr>)"
    by blast
  from inst [of db_A] b obtain st r where r: "sync conflict_env db_A = Some (st, r)" by blast
  with inst [of db_A] have "success r = (failed_items r = 0)" by blast
  with r have 2: "\<exists>st r. sync conflict_env db_A = Some (st, r) \<and> success r = (failed_items r = 0)"
    by (intro exI conjI)
  show ?thesis
    by (intro conjI) (fact online_conflict_env pendingItems_db_idle 1 b 2)+
qed

section \<open>Recording a failure\<close>

lemma filter_updated_rows:
  assumes "\<And>q. q_id (g q) = q_id q"
  shows "filter (\<lambda>q. q_id q \<noteq> i) (map (\<lambda>q. if q_id q = i then g q else q) qs) =
         filter (\<lambda>q. q_id q \<noteq> i) qs"
  by (induction qs) (simp_all add: assms)

lemma handleSyncError_queue:
  "sync_queue (handleSyncError item message d) =
     (if retry_count item + 1 \<ge> 3
      then filter (\<lambda>q. q_id q \<noteq> q_id item) (sync_queue d)
      else map (\<lambda>q. if q_id q = q_id item
                      then q\<lparr>retry_count := retry_count item + 1,
                             q_error_message := Some (error_text message)\<rparr>
                      else q) (sync_queue d))"
  by (simp add: handleSyncError_def Let_def error_text_def filter_updated_rows)

lemma handleSyncError_tasks:
  "tasks (handleSyncError item message d) =
     (if retry_count item + 1 \<ge> 3
      then map (\<lambda>row. if t_id row = task_id item
                        then row\<lparr>sync_status := Error,
                                 error_message := Some (''Max retries exceeded: '' @ error_text message)\<rparr>
                        else row) (tasks d)
      else tasks d)"
  by (simp add: handleSyncError_def Let_def error_text_def)

lemma unique_row:
  assumes "distinct (map q_id qs)" "item \<in> set qs" "q \<in> set qs" "q_id q = q_id item"
  shows "q = item"
  using assms by (meson distinct_map inj_onD)

lemma fresh_handleSyncError:
  assumes "no_new_exhausted old d" "retry_count item < 3"
  shows "no_new_exhausted old (handleSyncError item message d)"
  using assms
  by (auto simp: no_new_exhausted_def handleSyncError_queue list_all_iff)

lemma fresh_updateSyncStatus:
  assumes "no_new_exhausted old d"
  shows "no_new_exhausted old (updateSyncStatus taskId st serverData now d)"
  using assms
  by (auto simp: no_new_exhausted_def updateSyncStatus_def Let_def list_all_iff)

lemma db_record_error [simp]: "db (record_error env tid opn message st) = db st"
  by (simp add: record_error_def)

lemma fresh_fail_batch:
  assumes "no_new_exhausted old (db st)" "\<forall>q \<in> set batch. retry_count q < 3"
  shows "no_new_exhausted old (db (fail_batch env message batch st))"
  using assms
  by (induction batch arbitrary: st) (simp_all add: fresh_handleSyncError)

lemma find_Some_set: "find P xs = Some x \<Longrightarrow> x \<in> set xs"
  by (induction xs) (auto split: if_splits)

lemma fresh_apply_verdicts:
  assumes "no_new_exhausted old (db st)" "\<forall>q \<in> set batch. retry_count q < 3"
  shows "no_new_exhausted old (db (snd (apply_verdicts env batch processed st)))"
  using assms
proof (induction processed arbitrary: st)
  case Nil
  then show ?case by simp
next
  case (Cons item rest)
  show ?case
  proof (cases "status item = Success")
    case True
    then show ?thesis
      using Cons.prems by (simp add: Cons.IH fresh_updateSyncStatus)
  next
    case False
    show ?thesis
    proof (cases "find (\<lambda>b. task_id b = client_id item) batch")
      case None
      with False Cons.prems show ?thesis by (simp add: Let_def)
    next
      case (Some b)
      then have "retry_count b < 3" using Cons.prems(2) find_Some_set by fastforce
      with False Some Cons.prems show ?thesis
        by (simp add: Let_def Cons.IH fresh_handleSyncError)
    qed
  qed
qed

lemma db_processBatch [simp]: "db (snd (processBatch env batch st)) = db st"
  by (simp add: processBatch_def Let_def split: attempt.splits)

lemma fresh_sync_batch:
  assumes "no_new_exhausted old (db st)" "\<forall>q \<in> set batch. retry_count q < 3"
  shows "no_new_exhausted old (db (sync_batch env batch st))"
proof -
  obtain a st1 where p: "processBatch env batch st = (a, st1)" by (cases "processBatch env batch st")
  with db_processBatch [of env batch st] have d1: "db st1 = db st" by simp
  show ?thesis
  proof (cases a)
    case (Throws m)
    with p d1 assms show ?thesis by (simp add: sync_batch_def fresh_fail_batch)
  next
    case (Returns processed)
    obtain r st2 where v: "apply_verdicts env batch processed st1 = (r, st2)"
      by (cases "apply_verdicts env batch processed st1")
    from fresh_apply_verdicts [where st = st1 and batch = batch and env = env
        and processed = processed and old = old] v d1 assms
    have "no_new_exhausted old (db st2)" by simp
    with p Returns v assms(2) show ?thesis
      by (cases r) (simp_all add: sync_batch_def fresh_fail_batch)
  qed
qed

lemma fresh_run_batches:
  assumes "no_new_exhausted old (db st)" "\<forall>q \<in> set (concat batches). retry_count q < 3"
  shows "no_new_exhausted old (db (run_batches env batches st))"
  using assms
  by (induction batches arbitrary: st) (simp_all add: fresh_sync_batch)

lemma pendingItems_below: "\<forall>q \<in> set (pendingItems d). retry_count q < 3"
  by (simp add: pendingItems_def)

lemma fresh_sync:
  assumes "no_new_exhausted old d" "sync env d = Some (st, r)"
  shows "no_new_exhausted old (db st)"
proof (cases "checkConnectivity env \<and> pendingItems d \<noteq> []")
  case False
  with assms show ?thesis by (auto simp: sync_def start_def split: if_splits)
next
  case True
  with assms(2) obtain bs where bs: "make_batches (BATCH_SIZE env) (pendingItems d) = Some bs"
    "st = run_batches env bs (start d)"
    by (auto simp: sync_def Let_def split: option.splits)
  from make_batches_subset [OF bs(1)] pendingItems_below [of d]
  have "\<forall>q \<in> set (concat bs). retry_count q < 3" by blast
  with assms(1) bs(2) fresh_run_batches [where st = "start d" and batches = bs and env = env
      and old = old] show ?thesis
    by (simp add: start_def)
qed

lemma within_sync:
  assumes "within_retry_limit d" "sync env d = Some (st, r)"
  shows "within_retry_limit (db st)"
proof -
  have "no_new_exhausted [] d"
    using assms(1) by (simp add: within_retry_limit_def no_new_exhausted_def)
  from fresh_sync [OF this assms(2)] show ?thesis
    by (simp add: within_retry_limit_def no_new_exhausted_def)
qed

lemma exhausted_rows_are_old:
  assumes "sync env d = Some (st, r)"
  shows "\<forall>q \<in> set (sync_queue (db st)). retry_count q < 3 \<or> q \<in> set (sync_queue d)"
proof -
  have "no_new_exhausted (sync_queue d) d"
    by (simp add: no_new_exhausted_def list_all_iff)
  from fresh_sync [OF this assms] show ?thesis
    by (simp add: no_new_exhausted_def list_all_iff)
qed

lemma sync_returns:
  assumes "checkConnectivity env" "BATCH_SIZE env = Some B" "0 < B"
  shows "\<exists>st r. sync env d = Some (st, r)"
proof -
  from make_batches_positive [OF assms(3), of "pendingItems d"] assms(2)
  obtain bs where "make_batches (BATCH_SIZE env) (pendingItems d) = Some bs" by auto
  then show ?thesis using assms(1) by (simp add: sync_def Let_def)
qed

text \<open>
  C4, as amended: when a failure is recorded on an item that is a row of the queue,
  identifiers being unique, and the new counter is below 3, exactly that row changes: its
  retry counter is one higher and it holds the error text. In every case
  \<open>handleSyncError\<close> leaves every remaining queue row of the item with the item's retry
  counter plus one and the error text, and touches no row of another item; while the new
  counter is below 3 it removes no row and changes no task. When the new counter reaches
  3, no row of the item remains, and every task row of the owning task gets status
  \<open>Error\<close> and the message \<open>Max retries exceeded: ...\<close>, the other task rows staying
  as they were: a task is marked \<open>Error\<close> only together with the removal of the item.
  Hence a queue in which every retry counter is below 3 is again such a queue after any
  run of \<open>sync\<close>, and in any case a row that holds a counter of 3 or more after a run was
  stored like that before it.
\<close>

theorem C4_failure_bookkeeping:
  "(let d' = handleSyncError item message d; n = retry_count item + 1
    in (\<forall>q \<in> set (sync_queue d').
          q_id q = q_id item \<longrightarrow>
            retry_count q = n \<and> q_error_message q = Some (error_text message)) \<and>
       filter (\<lambda>q. q_id q \<noteq> q_id item) (sync_queue d') =
         filter (\<lambda>q. q_id q \<noteq> q_id item) (sync_queue d) \<and>
       (n < 3 \<longrightarrow> tasks d' = tasks d \<and> map q_id (sync_queue d') = map q_id (sync_queue d)) \<and>
       (n < 3 \<and> item \<in> set (sync_queue d) \<and> distinct (map q_id (sync_queue d)) \<longrightarrow>
          sync_queue d' =
            map (\<lambda>q. if q = item
                      then item\<lparr>retry_count := retry_count item + 1,
                                q_error_message := Some (error_text message)\<rparr>
                      else q) (sync_queue d)) \<and>
       (n \<ge> 3 \<longrightarrow>
          (\<forall>q \<in> set (sync_queue d'). q_id q \<noteq> q_id item) \<and>
          length (tasks d') = length (tasks d) \<and>
          (\<forall>i < length (tasks d).
             if t_id (tasks d ! i) = task_id item
             then tasks d' ! i =
                    (tasks d ! i)\<lparr>sync_status := Error,
                                   error_message := Some (''Max retries exceeded: '' @ error_text message)\<rparr>
             else tasks d' ! i = tasks d ! i))) \<and>
   (within_retry_limit d \<and> sync env d = Some (st, r) \<longrightarrow> within_retry_limit (db st)) \<and>
   (sync env d = Some (st, r) \<longrightarrow>
      (\<forall>q \<in> set (sync_queue (db st)). retry_count q < 3 \<or> q \<in> set (sync_queue d)))"
proof -
  let ?d' = "handleSyncError item message d"
  let ?n = "retry_count item + 1"
  have a: "\<forall>q \<in> set (sync_queue ?d').
          q_id q = q_id item \<longrightarrow>
            retry_count q = ?n \<and> q_error_message q = Some (error_text message)"
    by (auto simp: handleSyncError_queue)
  have b: "filter (\<lambda>q. q_id q \<noteq> q_id item) (sync_queue ?d') =
         filter (\<lambda>q. q_id q \<noteq> q_id item) (sync_queue d)"
    by (simp add: handleSyncError_queue filter_updated_rows)
  have c: "?n < 3 \<longrightarrow> tasks ?d' = tasks d \<and> map q_id (sync_queue ?d') = map q_id (sync_queue d)"
    by (simp add: handleSyncError_queue handleSyncError_tasks comp_def if_distrib cong: if_cong)
  have d: "?n < 3 \<and> item \<in> set (sync_queue d) \<and> distinct (map q_id (sync_queue d)) \<longrightarrow>
          sync_queue ?d' =
            map (\<lambda>q. if q = item
                      then item\<lparr>retry_count := retry_count item + 1,
                                q_error_message := Some (error_text message)\<rparr>
                      else q) (sync_queue d)"
  proof (intro impI, elim conjE)
    assume n: "?n < 3" and i: "item \<in> set (sync_queue d)"
      and u: "distinct (map q_id (sync_queue d))"
    have "\<And>q. q \<in> set (sync_queue d) \<Longrightarrow> (q_id q = q_id item) = (q = item)"
      using unique_row [OF u i] by auto
    then show "sync_queue ?d' =
            map (\<lambda>q. if q = item
                      then item\<lparr>retry_count := retry_count item + 1,
                                q_error_message := Some (error_text message)\<rparr>
                      else q) (sync_queue d)"
      using n by (auto simp: handleSyncError_queue)
  qed
  have e: "?n \<ge> 3 \<longrightarrow>
          (\<forall>q \<in> set (sync_queue ?d'). q_id q \<noteq> q_id item) \<and>
          length (tasks ?d') = length (tasks d) \<and>
          (\<forall>i < length (tasks d).
             if t_id (tasks d ! i) = task_id item
             then tasks ?d' ! i =
                    (tasks d ! i)\<lparr>sync_status := Error,
                                   error_message := Some (''Max retries exceeded: '' @ error_text message)\<rparr>
             else tasks ?d' ! i = tasks d ! i)"
    by (simp add: handleSyncError_queue handleSyncError_tasks)
  have f: "within_retry_limit d \<and> sync env d = Some (st, r) \<longrightarrow> within_retry_limit (db st)"
    using within_sync by blast
  have g: "sync env d = Some (st, r) \<longrightarrow>
      (\<forall>q \<in> set (sync_queue (db st)). retry_count q < 3 \<or> q \<in> set (sync_queue d))"
    using exhausted_rows_are_old by blast
  show ?thesis
    unfolding Let_def using a b c d e f g by (intro conjI)
qed

theorem C4_witness:
  "retry_count item_1 + 1 < 3 \<and> item_1 \<in> set (sync_queue db_A) \<and>
   distinct (map q_id (sync_queue db_A)) \<and>
   sync_queue (handleSyncError item_1 ''Network Error'' db_A) =
     [item_1\<lparr>retry_count := 1, q_error_message := Some ''Network Error''\<rparr>] \<and>
   tasks (handleSyncError item_1 ''Network Error'' db_A) = tasks db_A \<and>
   retry_count item_last + 1 \<ge> 3 \<and>
   sync_queue (handleSyncError item_last ''timeout'' db_last) = [] \<and>
   sync_status (tasks (handleSyncError item_last ''timeout'' db_last) ! 0) = Error \<and>
   error_message (tasks (handleSyncError item_last ''timeout'' db_last) ! 0) =
     Some ''Max retries exceeded: timeout'' \<and>
   within_retry_limit db_AA \<and>
   (\<exists>st r. sync split_env db_AA = Some (st, r) \<and> within_retry_limit (db st))"
proof -
  have h1: "retry_count item_1 + 1 < 3" "item_1 \<in> set (sync_queue db_A)"
    "distinct (map q_id (sync_queue db_A))"
    by (simp_all add: item_1_def db_A_def)
  have pre: "retry_count item_1 + 1 < 3 \<and> item_1 \<in> set (sync_queue db_A) \<and>
      distinct (map q_id (sync_queue db_A))"
    using h1 by (intro conjI)
  have q1: "sync_queue db_A = [item_1]" by (simp add: db_A_def)
  have t: "error_text ''Network Error'' = ''Network Error''" "error_text ''timeout'' = ''timeout''"
    by (simp_all add: error_text_def)
  note i1 = C4_failure_bookkeeping [where item = item_1 and message = "''Network Error''"
      and d = db_A, unfolded Let_def, THEN conjunct1]
  note a0 = i1 [THEN conjunct2, THEN conjunct2, THEN conjunct2, THEN conjunct1, THEN mp, OF pre]
  have a: "sync_queue (handleSyncError item_1 ''Network Error'' db_A) =
     [item_1\<lparr>retry_count := 1, q_error_message := Some ''Network Error''\<rparr>]"
    unfolding a0 q1 t by (simp add: item_1_def)
  note b = i1 [THEN conjunct2, THEN conjunct2, THEN conjunct1, THEN mp, OF h1(1), THEN conjunct1]
  have h2: "retry_count item_last + 1 \<ge> 3" by (simp add: item_last_def)
  have q2: "sync_queue db_last = [item_last]" and l2: "0 < length (tasks db_last)"
    and t2: "t_id (tasks db_last ! 0) = task_id item_last"
    by (simp_all add: db_last_def item_last_def task.extend_def local_A_def)
  note i2 = C4_failure_bookkeeping [where item = item_last and message = "''timeout''"
      and d = db_last, unfolded Let_def, THEN conjunct1]
  note e = i2 [THEN conjunct2, THEN conjunct2, THEN conjunct2, THEN conjunct2, THEN mp, OF h2]
  note gone = e [THEN conjunct1]
  note same = i2 [THEN conjunct2, THEN conjunct1]
  from gone have "filter (\<lambda>q. q_id q \<noteq> q_id item_last)
      (sync_queue (handleSyncError item_last ''timeout'' db_last)) =
      sync_queue (handleSyncError item_last ''timeout'' db_last)"
    by (simp only: filter_id_conv)
  with same have c: "sync_queue (handleSyncError item_last ''timeout'' db_last) = []"
    by (simp add: q2)
  from e [THEN conjunct2, THEN conjunct2, THEN spec, THEN mp, OF l2] t2
  have row: "tasks (handleSyncError item_last ''timeout'' db_last) ! 0 =
      (tasks db_last ! 0)\<lparr>sync_status := Error,
                          error_message := Some (''Max retries exceeded: '' @ error_text ''timeout'')\<rparr>"
    by simp
  have e1: "sync_status (tasks (handleSyncError item_last ''timeout'' db_last) ! 0) = Error"
    and e2: "error_message (tasks (handleSyncError item_last ''timeout'' db_last) ! 0) =
      Some ''Max retries exceeded: timeout''"
    by (simp_all add: row t)
  have w: "within_retry_limit db_AA"
    by (simp add: within_retry_limit_def db_AA_def item_1_def item_2_def)
  have bsz: "BATCH_SIZE split_env = Some 1" by (simp add: BATCH_SIZE_def split_env_def)
  from sync_returns [OF online_split_env bsz, of db_AA]
  obtain st r where sr: "sync split_env db_AA = Some (st, r)" by auto
  from w sr have "within_retry_limit db_AA \<and> sync split_env db_AA = Some (st, r)"
    by (intro conjI)
  from C4_failure_bookkeeping [where d = db_AA and env = split_env and st = st and r = r,
      THEN conjunct2, THEN conjunct1, THEN mp, OF this]
  have "within_retry_limit (db st)" .
  with sr have f: "\<exists>st r. sync split_env db_AA = Some (st, r) \<and> within_retry_limit (db st)"
    by (intro exI conjI)
  show ?thesis
    by (intro conjI) (fact h1 a b h2 c e1 e2 w f)+
qed

section \<open>A batch that fails as a whole\<close>









lemma sync_batch_Throws:
  assumes "post env (length (posts st)) \<lparr>items = batch, client_timestamp = clock env (ticks st)\<rparr>
             = Throws message"
  shows "sync_batch env batch st =
     fail_batch env message batch
       (st\<lparr>posts := posts st @ [\<lparr>items = batch, client_timestamp = clock env (ticks st)\<rparr>],
           ticks := Suc (ticks st)\<rparr>)"
  using assms by (simp add: sync_batch_def processBatch_def Let_def)







lemma make_batches_two: "make_batches (Some 1) [x, y] = Some [[x], [y]]"
  by (simp add: make_batches_def batches_loop.simps slice_def)


lemma split_first_batch:
  "sync_queue (db (sync_batch split_env [item_1] (start db_AA))) = []"
  by (simp add: sync_batch_def processBatch_def Let_def split_env_def start_def success_A_def
        keep_item_def updateSyncStatus_def db_AA_def item_1_def item_2_def)

lemma split_second_batch:
  "sync_batch split_env [item_2] (sync_batch split_env [item_1] (start db_AA)) =
     fail_batch split_env ''timeout of 30000ms exceeded'' [item_2]
       ((sync_batch split_env [item_1] (start db_AA))
          \<lparr>posts := posts (sync_batch split_env [item_1] (start db_AA)) @
                     [\<lparr>items = [item_2],
                       client_timestamp = clock split_env (ticks (sync_batch split_env [item_1] (start db_AA)))\<rparr>],
           ticks := Suc (ticks (sync_batch split_env [item_1] (start db_AA)))\<rparr>)"
  by (rule sync_batch_Throws) (simp add: posts_sync_batch start_def split_env_def)

lemma split_final_queue:
  "sync_queue (db (sync_batch split_env [item_2] (sync_batch split_env [item_1] (start db_AA)))) = []"
  by (simp add: split_second_batch handleSyncError_queue split_first_batch)

lemma split_posts:
  "map items (posts (sync_batch split_env [item_2] (sync_batch split_env [item_1] (start db_AA)))) =
     [[item_1], [item_2]]"
  by (simp add: posts_sync_batch start_def)


lemma split_first_state:
  "errs (sync_batch split_env [item_1] (start db_AA)) = [] \<and>
   failedItems (sync_batch split_env [item_1] (start db_AA)) = 0 \<and>
   syncedItems (sync_batch split_env [item_1] (start db_AA)) = 1 \<and>
   map sync_status (tasks (db (sync_batch split_env [item_1] (start db_AA)))) = [Synced]"
  by (simp add: sync_batch_def processBatch_def Let_def split_env_def start_def success_A_def
        keep_item_def updateSyncStatus_def truthy_server_id_def wire_A_def db_AA_def
        task.extend_def local_A_def)

lemma split_run_result:
  "sync split_env db_AA =
     Some (sync_batch split_env [item_2] (sync_batch split_env [item_1] (start db_AA)),
           \<lparr>success = (failedItems (sync_batch split_env [item_2]
                          (sync_batch split_env [item_1] (start db_AA))) = 0),
            synced_items = syncedItems (sync_batch split_env [item_2]
                          (sync_batch split_env [item_1] (start db_AA))),
            failed_items = failedItems (sync_batch split_env [item_2]
                          (sync_batch split_env [item_1] (start db_AA))),
            errors = errs (sync_batch split_env [item_2]
                          (sync_batch split_env [item_1] (start db_AA)))\<rparr>)"
  using online_split_env
  by (simp add: sync_def Let_def pendingItems_db_AA BATCH_SIZE_def split_env_def make_batches_two)

lemma split_final_state:
  "failedItems (sync_batch split_env [item_2] (sync_batch split_env [item_1] (start db_AA))) = 1 \<and>
   map e_task_id (errs (sync_batch split_env [item_2] (sync_batch split_env [item_1] (start db_AA)))) =
     [''A''] \<and>
   map e_operation (errs (sync_batch split_env [item_2] (sync_batch split_env [item_1] (start db_AA)))) =
     [''update''] \<and>
   map e_error (errs (sync_batch split_env [item_2] (sync_batch split_env [item_1] (start db_AA)))) =
     [''timeout of 30000ms exceeded''] \<and>
   map sync_status (tasks (db (sync_batch split_env [item_2]
      (sync_batch split_env [item_1] (start db_AA))))) = [Synced]"
  by (simp add: split_second_batch record_error_def split_first_state handleSyncError_tasks)
     (simp add: item_2_def operation_name_def)

text \<open>
  C4 does not hold for an item whose row is no longer stored when its failure is recorded.
  In the run above the second batch fails as a whole and the failure of its item, a queue
  row with counter 0 when the run began, is recorded with an error entry; yet afterwards
  no row carries the raised counter or the error text: the row is gone although its
  counter never reached 3, and the owning task is \<open>Synced\<close>, not \<open>Error\<close>.
\<close>

theorem C4_counterexample:
  "case sync split_env db_AA of
     None \<Rightarrow> False
   | Some (st, r) \<Rightarrow>
       map items (posts st) = [[item_1], [item_2]] \<and>
       post split_env 1 \<lparr>items = [item_2], client_timestamp = 5002\<rparr> =
         Throws ''timeout of 30000ms exceeded'' \<and>
       failed_items r = 1 \<and>
       map e_task_id (errors r) = [task_id item_2] \<and>
       map e_operation (errors r) = [operation_name (operation item_2)] \<and>
       map e_error (errors r) = [''timeout of 30000ms exceeded''] \<and>
       item_2 \<in> set (sync_queue db_AA) \<and> retry_count item_2 = 0 \<and>
       sync_queue (db st) = [] \<and>
       map sync_status (tasks (db st)) = [Synced]"
  by (simp add: split_run_result split_posts split_final_state split_final_queue)
     (simp add: split_env_def db_AA_def item_2_def operation_name_def)

section \<open>A conflict reported by the server\<close>

lemma make_batches_one: "make_batches (Some 50) [x] = Some [[x]]"
  by (simp add: make_batches_def batches_loop.simps slice_def)

lemma getTask_db_A: "getTask db_A ''A'' = Some local_A"
  by (simp add: getTask_def db_A_def task.truncate_def task.extend_def local_A_def)

lemma resolve_conflicts_A:
  "resolve_conflicts db_A [\<lparr>client_id = ''A'', v_server_id = ''srv_1'', status = Conflict,
                             resolved_data = Some wire_A, error = None\<rparr>] =
     Throws ''serverTask.updated_at.getTime is not a function''"
  by (simp add: getTask_db_A resolveConflict_on_wire_def getTime_TypeError_def wire_A_def)

lemma titles_updateSyncStatus [simp]:
  "map title (tasks (updateSyncStatus taskId s serverData now d)) = map title (tasks d)"
  by (cases "truthy_server_id serverData")
     (simp_all add: updateSyncStatus_def Let_def comp_def if_distrib cong: if_cong)

lemma titles_handleSyncError [simp]:
  "map title (tasks (handleSyncError item message d)) = map title (tasks d)"
  by (simp add: handleSyncError_tasks comp_def if_distrib cong: if_cong)

lemma titles_fail_batch [simp]:
  "map title (tasks (db (fail_batch env message batch st))) = map title (tasks (db st))"
  by (induction batch arbitrary: st) simp_all

lemma titles_apply_verdicts [simp]:
  "map title (tasks (db (snd (apply_verdicts env batch processed st)))) = map title (tasks (db st))"
  by (induction processed arbitrary: st) (simp_all add: Let_def split: option.splits)

lemma titles_sync_batch [simp]:
  "map title (tasks (db (sync_batch env batch st))) = map title (tasks (db st))"
proof -
  obtain a st1 where p: "processBatch env batch st = (a, st1)" by (cases "processBatch env batch st")
  with db_processBatch [of env batch st] have d1: "db st1 = db st" by simp
  show ?thesis
  proof (cases a)
    case (Throws m)
    with p d1 show ?thesis by (simp add: sync_batch_def)
  next
    case (Returns processed)
    obtain r st2 where v: "apply_verdicts env batch processed st1 = (r, st2)"
      by (cases "apply_verdicts env batch processed st1")
    from titles_apply_verdicts [of env batch processed st1] v d1
    have "map title (tasks (db st2)) = map title (tasks (db st))" by simp
    with p Returns v show ?thesis by (cases r) (simp_all add: sync_batch_def)
  qed
qed

lemma titles_run_batches [simp]:
  "map title (tasks (db (run_batches env batches st))) = map title (tasks (db st))"
  by (induction batches arbitrary: st) simp_all

text \<open>
  The conflict loop never turns a verdict into a success: it returns the items as they
  arrived, or throws.
\<close>

lemma resolve_conflicts_Returns:
  "resolve_conflicts d processed = Returns processed' \<Longrightarrow> processed' = processed"
proof (induction processed arbitrary: processed')
  case Nil
  then show ?case by simp
next
  case (Cons item rest)
  then show ?case
    by (auto simp: keep_item_def resolveConflict_on_wire_def
             split: if_splits option.splits attempt.splits)
qed

lemma conflict_throws:
  assumes "status item = Conflict" "getTask d (client_id item) = Some localTask"
    "resolved_data item = Some serverTask"
  shows "resolve_conflicts d (item # rest) = Throws (getTime_TypeError (w_updated_at serverTask))"
  using assms by (simp add: resolveConflict_on_wire_def)

text \<open>No run of \<open>sync\<close> changes a stored title.\<close>

lemma sync_keeps_titles:
  assumes "sync env d = Some (st, r)"
  shows "map title (tasks (db st)) = map title (tasks d)"
  using assms
  by (auto simp: sync_def Let_def start_def split: if_splits option.splits)

text \<open>
  C1: task \<open>A\<close> has local timestamp 1000 and one update queued; the server reports a
  conflict with a version of timestamp 2000 and title \<open>Server Update\<close>. Resolving the
  conflict throws, so the whole batch fails: the run reports \<open>success = false\<close> with one
  failed item, the stored title is still \<open>Local Update\<close>, the status is still
  \<open>Pending\<close>, and the queue entry is kept, its retry counter now 1.
\<close>

theorem C1_conflict_fails_the_batch:
  "\<exists>st r. sync conflict_env db_A = Some (st, r) \<and>
     success r = False \<and> synced_items r = 0 \<and> failed_items r = 1 \<and>
     map e_error (errors r) = [''serverTask.updated_at.getTime is not a function''] \<and>
     w_title wire_A = Some ''Server Update'' \<and>
     map title (tasks (db st)) = [''Local Update''] \<and>
     map sync_status (tasks (db st)) = [Pending] \<and>
     sync_queue (db st) =
       [item_1\<lparr>retry_count := 1,
               q_error_message := Some ''serverTask.updated_at.getTime is not a function''\<rparr>]"
proof -
  have batches: "make_batches (BATCH_SIZE conflict_env) (pendingItems db_A) = Some [[item_1]]"
    by (simp add: BATCH_SIZE_def conflict_env_def pendingItems_db_A make_batches_one)
  have pb: "processBatch conflict_env [item_1] (start db_A) =
      (Throws ''serverTask.updated_at.getTime is not a function'',
       (start db_A)\<lparr>posts := [\<lparr>items = [item_1], client_timestamp = 5000\<rparr>], ticks := 1\<rparr>)"
    by (simp add: processBatch_def Let_def conflict_env_def start_def resolve_conflicts_A
          del: resolve_conflicts.simps)
  have run: "sync_batch conflict_env [item_1] (start db_A) =
      \<lparr>db = \<lparr>tasks = [task.extend local_A \<lparr>error_message = None\<rparr>],
             sync_queue = [item_1\<lparr>retry_count := 1,
               q_error_message := Some ''serverTask.updated_at.getTime is not a function''\<rparr>]\<rparr>,
       syncedItems = 0, failedItems = 1,
       errs = [\<lparr>e_task_id = ''A'', e_operation = ''update'',
                 e_error = ''serverTask.updated_at.getTime is not a function'',
                 e_timestamp = 5001\<rparr>],
       posts = [\<lparr>items = [item_1], client_timestamp = 5000\<rparr>], ticks = 2\<rparr>"
    by (simp add: sync_batch_def pb)
       (simp add: start_def db_A_def conflict_env_def handleSyncError_def record_error_def
          operation_name_def item_1_def Let_def)
  have "sync conflict_env db_A =
      Some (sync_batch conflict_env [item_1] (start db_A),
            \<lparr>success = False, synced_items = 0, failed_items = 1,
             errors = [\<lparr>e_task_id = ''A'', e_operation = ''update'',
                         e_error = ''serverTask.updated_at.getTime is not a function'',
                         e_timestamp = 5001\<rparr>]\<rparr>)"
    using online_conflict_env batches
    by (simp add: sync_def Let_def pendingItems_db_A run)
  then show ?thesis
    by (simp add: run) (simp add: local_A_def wire_A_def task.extend_def)
qed

end
